theory Spec2Isabelle
  imports Complex_Main
begin

section \<open>Star charts: the embedding of \<open>solar_system_plot.py\<close>\<close>

text \<open>
  The module has one function, \<open>plot_solar_sys_objects\<close>. Its numeric data are numpy
  and pandas floating-point arrays. The embedding reads every number as a \<open>real\<close>; the
  operations are first written without rounding, and the line segmenter is then written
  a second time with the float64 rounding of every operation, for the properties that
  rounding decides. Infinities and NaN are outside the model. A coordinate pair (a numpy
  row of shape \<open>(2,)\<close>) is a pair \<open>(lon, lat)\<close>, a line (shape \<open>(2, 2)\<close>) is a pair of
  points.
\<close>

subsection \<open>Python values read as conditions\<close>

text \<open>
  \<open>ecliptic_coords\<close> is an ordinary Python argument: the function never checks its
  type and reads it only through \<open>if ecliptic_coords\<close>, that is by truthiness. Four
  kinds of argument are modelled: \<open>None\<close>, a bool, an int and a str. An object whose
  truth test itself raises (a numpy array of several elements) is not among them.
\<close>

datatype py_val = PyNone | PyBool bool | PyInt int | PyStr string

fun truthy :: "py_val \<Rightarrow> bool" where
  "truthy PyNone = False"
| "truthy (PyBool b) = b"
| "truthy (PyInt i) = (i \<noteq> 0)"
| "truthy (PyStr s) = (s \<noteq> [])"

subsection \<open>Points, lines and the distance of two points\<close>

type_synonym point = "real \<times> real"
type_synonym line = "point \<times> point"

text \<open>\<open>a + (x, 0)\<close> and \<open>a - (x, 0)\<close> on a numpy row: elementwise.\<close>

definition vadd :: "point \<Rightarrow> point \<Rightarrow> point" where
  "vadd a b = (fst a + fst b, snd a + snd b)"

definition vsub :: "point \<Rightarrow> point \<Rightarrow> point" where
  "vsub a b = (fst a - fst b, snd a - snd b)"

text \<open>\<open>def dist(a, b): return np.sqrt(np.sum((a - b)**2.0))\<close>\<close>

definition dist_xy :: "point \<Rightarrow> point \<Rightarrow> real" where
  "dist_xy a b = sqrt ((fst (vsub a b))\<^sup>2 + (snd (vsub a b))\<^sup>2)"

text \<open>\<open>x_max = 360 if ecliptic_coords else 24\<close>\<close>

definition x_max :: "py_val \<Rightarrow> real" where
  "x_max ecliptic_coords = (if truthy ecliptic_coords then 360 else 24)"

subsection \<open>The periodic line segmenter\<close>

text \<open>
  The body of \<open>for line in lines_xy\<close>: the segments that one line appends to
  \<open>lines_xy_mod\<close>, in the order of the \<open>append\<close> calls.
\<close>

definition wrap_line :: "real \<Rightarrow> line \<Rightarrow> line list" where
  "wrap_line xm line =
     (if dist_xy (fst line) (snd line) > dist_xy (vadd (fst line) (xm, 0)) (snd line) then
        [(vadd (fst line) (xm, 0), snd line), (fst line, vsub (snd line) (xm, 0))]
      else if dist_xy (fst line) (snd line) > dist_xy (fst line) (vadd (snd line) (xm, 0)) then
        [(vsub (fst line) (xm, 0), snd line), (fst line, vadd (snd line) (xm, 0))]
      else
        [(fst line, snd line)])"

text \<open>The loop itself, with \<open>lines_xy_mod\<close> as the accumulator, started empty.\<close>

fun lines_loop :: "real \<Rightarrow> line list \<Rightarrow> line list \<Rightarrow> line list" where
  "lines_loop xm [] acc = acc"
| "lines_loop xm (line # rest) acc = lines_loop xm rest (acc @ wrap_line xm line)"

definition lines_xy_mod :: "real \<Rightarrow> line list \<Rightarrow> line list" where
  "lines_xy_mod xm lines_xy = lines_loop xm lines_xy []"

text \<open>Translating a whole line along the plane.\<close>

definition translate :: "point \<Rightarrow> line \<Rightarrow> line" where
  "translate v line = (vadd (fst line) v, vadd (snd line) v)"

subsection \<open>The segmenter in float64 arithmetic\<close>

text \<open>
  The coordinates are float64 values and every operation of the segmenter rounds its
  result. \<open>fl64\<close> is rounding to the nearest binary64 value, ties to even: 53
  significant bits, the exponent never below \<open>-1022\<close>, so that subnormal results are
  covered. The exponent is not bounded above: overflow is outside the model. In
  \<open>fl64\<close> terms, \<open>a + b\<close> and \<open>a - b\<close> are one rounded operation per component,
  \<open>(a - b)**2.0\<close> is the rounded product of each component with itself (numpy computes
  a power with the scalar exponent \<open>2.0\<close> as the square), \<open>np.sum\<close> of the two squares
  is one rounded addition and \<open>np.sqrt\<close> is the rounded square root.
\<close>

definition round_even :: "real \<Rightarrow> int" where
  "round_even y =
     (if y - of_int \<lfloor>y\<rfloor> < 1 / 2 then \<lfloor>y\<rfloor>
      else if 1 / 2 < y - of_int \<lfloor>y\<rfloor> then \<lfloor>y\<rfloor> + 1
      else if even \<lfloor>y\<rfloor> then \<lfloor>y\<rfloor> else \<lfloor>y\<rfloor> + 1)"

definition expo :: "real \<Rightarrow> int" where
  "expo x = max \<lfloor>log 2 \<bar>x\<bar>\<rfloor> (- 1022)"

definition fl64 :: "real \<Rightarrow> real" where
  "fl64 x =
     (if x = 0 then 0
      else of_int (round_even (x / 2 powi (expo x - 52))) * 2 powi (expo x - 52))"

text \<open>
  The operations of \<open>dist\<close> and of the loop body, each followed by its rounding; the
  branches and the appended segments are those of \<open>wrap_line\<close>.
\<close>

definition vadd64 :: "point \<Rightarrow> point \<Rightarrow> point" where
  "vadd64 a b = (fl64 (fst a + fst b), fl64 (snd a + snd b))"

definition vsub64 :: "point \<Rightarrow> point \<Rightarrow> point" where
  "vsub64 a b = (fl64 (fst a - fst b), fl64 (snd a - snd b))"

definition dist64 :: "point \<Rightarrow> point \<Rightarrow> real" where
  "dist64 a b =
     fl64 (sqrt (fl64 (fl64 ((fst (vsub64 a b))\<^sup>2) + fl64 ((snd (vsub64 a b))\<^sup>2))))"

definition wrap_line64 :: "real \<Rightarrow> line \<Rightarrow> line list" where
  "wrap_line64 xm line =
     (if dist64 (fst line) (snd line) > dist64 (vadd64 (fst line) (xm, 0)) (snd line) then
        [(vadd64 (fst line) (xm, 0), snd line), (fst line, vsub64 (snd line) (xm, 0))]
      else if dist64 (fst line) (snd line) > dist64 (fst line) (vadd64 (snd line) (xm, 0)) then
        [(vsub64 (fst line) (xm, 0), snd line), (fst line, vadd64 (snd line) (xm, 0))]
      else
        [(fst line, snd line)])"

definition translate64 :: "point \<Rightarrow> line \<Rightarrow> line" where
  "translate64 v line = (vadd64 (fst line) v, vadd64 (snd line) v)"


subsection \<open>The star catalogue and the brightness filter\<close>

text \<open>
  \<open>stars\<close> is a pandas DataFrame indexed by the Hipparcos number; a column of it, and
  any Series derived from one, is a finite map from that index. Assigning to a list of
  labels (\<open>s[keys] = v\<close>) and reading a list of labels (\<open>df.loc[keys]\<close>) raise
  \<open>KeyError\<close> when a label is not in the index. This is the one failure the model
  represents.
\<close>

datatype error = KeyError

type_synonym 'a series = "nat \<rightharpoonup> 'a"

definition set_labels :: "'a series \<Rightarrow> nat list \<Rightarrow> 'a \<Rightarrow> error + 'a series" where
  "set_labels s keys v =
     (if list_all (\<lambda>k. s k \<noteq> None) keys
      then Inr (\<lambda>h. if h \<in> set keys then Some v else s h)
      else Inl KeyError)"

definition loc :: "'a series \<Rightarrow> nat list \<Rightarrow> error + 'a list" where
  "loc s keys =
     (if list_all (\<lambda>k. s k \<noteq> None) keys
      then Inr (map (\<lambda>k. the (s k)) keys)
      else Inl KeyError)"

text \<open>
  \<open>bright_stars = (stars.magnitude <= limiting_magnitude)\<close>, then
  \<open>bright_stars[edges_star1] = True\<close> and \<open>bright_stars[edges_star2] = True\<close>.
\<close>

definition bright_stars ::
  "real series \<Rightarrow> real \<Rightarrow> nat list \<Rightarrow> nat list \<Rightarrow> error + bool series" where
  "bright_stars stars_magnitude limiting_magnitude edges_star1 edges_star2 =
     (case set_labels (\<lambda>h. map_option (\<lambda>m. m \<le> limiting_magnitude) (stars_magnitude h))
             edges_star1 True of
        Inl e \<Rightarrow> Inl e
      | Inr b \<Rightarrow> set_labels b edges_star2 True)"

text \<open>\<open>col[bright_stars]\<close>: the rows of a column where the mask is \<open>True\<close>.\<close>

definition select_mask :: "'a series \<Rightarrow> bool series \<Rightarrow> 'a series" where
  "select_mask col msk = (\<lambda>h. if msk h = Some True then col h else None)"

text \<open>
  \<open>marker_size = (1.5 + limiting_magnitude - magnitude) ** 2.0\<close>, on the magnitudes
  of the selected stars. The exponent \<open>2.0\<close> is the square, also of a negative base.
\<close>

definition marker_size :: "real \<Rightarrow> real series \<Rightarrow> real series" where
  "marker_size limiting_magnitude magnitude =
     (\<lambda>h. map_option (\<lambda>m. (1.5 + limiting_magnitude - m)\<^sup>2) (magnitude h))"

subsection \<open>Observed positions and the two frames\<close>

text \<open>
  What skyfield returns for an observation: \<open>ecliptic_latlon()\<close> gives latitude and
  longitude in degrees, \<open>radec()\<close> right ascension in hours and declination in degrees.
  The catalogue, the ephemeris and the clock are outside the module; an observation is
  a parameter of the model.
\<close>

record position =
  ecl_lat_degrees :: real
  ecl_lon_degrees :: real
  ra_hours :: real
  dec_degrees :: real

definition ecliptic_latlon :: "position \<Rightarrow> real \<times> real" where
  "ecliptic_latlon p = (ecl_lat_degrees p, ecl_lon_degrees p)"

definition radec :: "position \<Rightarrow> real \<times> real" where
  "radec p = (ra_hours p, dec_degrees p)"

text \<open>
  The point \<open>(lon_deg, lat_deg)\<close> of a star, and \<open>(x, y)\<close> of a body: the source
  writes this choice out at each place,
  \<open>if ecliptic_coords: ecl_lat, ecl_lon = pos.ecliptic_latlon()[:2]; x = ecl_lon.degrees; y = ecl_lat.degrees\<close>
  \<open>else: ra, dec = pos.radec()[:2]; x = ra.hours; y = dec.degrees\<close>.
\<close>

definition lon_lat :: "py_val \<Rightarrow> position \<Rightarrow> point" where
  "lon_lat ecliptic_coords pos =
     (if truthy ecliptic_coords
      then (case ecliptic_latlon pos of (ecl_lat, ecl_lon) \<Rightarrow> (ecl_lon, ecl_lat))
      else (case radec pos of (ra, dec) \<Rightarrow> (ra, dec)))"

subsection \<open>The solar-system bodies\<close>

text \<open>The dictionary \<open>objs\<close>, in insertion order: key, colour, marker size, printed name.\<close>

definition objs :: "(string \<times> string \<times> nat \<times> string) list" where
  "objs =
     [(''sun'', ''yellow'', 10, ''Sun''),
      (''moon'', ''grey'', 10, ''Moon''),
      (''mercury'', ''orange'', 6, ''Mercury''),
      (''venus'', ''silver'', 6, ''Venus''),
      (''mars'', ''red'', 5, ''Mars''),
      (''jupiter_barycenter'', ''brown'', 5, ''Jupiter''),
      (''saturn_barycenter'', ''lightgrey'', 5, ''Saturn''),
      (''uranus_barycenter'', ''cyan'', 4, ''Uranus''),
      (''neptune_barycenter'', ''blue'', 4, ''Neptune'')]"

record object_mark =
  label :: string
  marker_xy :: point
  motion :: point
  tip_xy :: point
  arrow :: bool

text \<open>
  The body of \<open>for obj in objs\<close>. \<open>observe obj t\<close> stands for
  \<open>earth.at(t).observe(eph[obj])\<close>; \<open>motion\<close> is \<open>(lon_delta, lat_delta)\<close> and
  \<open>tip_xy\<close> is \<open>(x1, y1)\<close>, the far end of the arrow that is drawn for three bodies.
\<close>

definition plot_object ::
  "py_val \<Rightarrow> (string \<Rightarrow> real \<Rightarrow> position) \<Rightarrow> real \<Rightarrow> string \<times> string \<times> nat \<times> string \<Rightarrow> object_mark" where
  "plot_object ecliptic_coords observe t entry =
     (case entry of (obj, color, ms, name) \<Rightarrow>
        let obj_pos = observe obj t;
            x = fst (lon_lat ecliptic_coords obj_pos);
            y = snd (lon_lat ecliptic_coords obj_pos);
            obj_pos1 = observe obj (t + 7);
            lat_delta =
              (if truthy ecliptic_coords
               then fst (ecliptic_latlon obj_pos1) - fst (ecliptic_latlon obj_pos)
               else snd (radec obj_pos1) - snd (radec obj_pos));
            lon_delta =
              (if truthy ecliptic_coords
               then snd (ecliptic_latlon obj_pos1) - snd (ecliptic_latlon obj_pos)
               else fst (radec obj_pos1) - fst (radec obj_pos));
            x1 = x + lon_delta;
            y1 = y + lat_delta
        in \<lparr>label = name, marker_xy = (x, y), motion = (lon_delta, lat_delta),
            tip_xy = (x1, y1), arrow = (obj \<in> set [''mercury'', ''venus'', ''sun''])\<rparr>)"

subsection \<open>The chart\<close>

text \<open>
  What \<open>plot_solar_sys_objects\<close> hands to the axis: the mask and sizes of the stars,
  the scattered points, the line collection, the x limits and the marks of the bodies.
  The reference curve (the Sun sampled from \<open>t - 190\<close> to \<open>t + 189\<close> in the
  equatorial frame), the labels and the ticks are left out, and an observation is a
  total function: no property below is about them.
\<close>

record scene =
  star_mask :: "bool series"
  star_sizes :: "real series"
  star_xy :: "point series"
  lines :: "line list"
  xlim :: "real \<times> real"
  marks :: "object_mark list"

definition plot_solar_sys_objects ::
  "real series \<Rightarrow> (nat \<Rightarrow> position) \<Rightarrow> (string \<times> (nat \<times> nat) list) list \<Rightarrow>
   (string \<Rightarrow> real \<Rightarrow> position) \<Rightarrow> real \<Rightarrow> real \<Rightarrow> py_val \<Rightarrow> error + scene" where
  "plot_solar_sys_objects stars_magnitude star_positions constellations observe t
       limiting_magnitude ecliptic_coords =
     (let edges = concat (map snd constellations);
          edges_star1 = map fst edges;
          edges_star2 = map snd edges
      in case bright_stars stars_magnitude limiting_magnitude edges_star1 edges_star2 of
           Inl e \<Rightarrow> Inl e
         | Inr bright \<Rightarrow>
             let magnitude = select_mask stars_magnitude bright;
                 sizes = marker_size limiting_magnitude magnitude;
                 xy = (\<lambda>h. map_option (\<lambda>m. lon_lat ecliptic_coords (star_positions h))
                             (stars_magnitude h))
             in case loc xy edges_star1 of
                  Inl e \<Rightarrow> Inl e
                | Inr xy1 \<Rightarrow>
                    (case loc xy edges_star2 of
                       Inl e \<Rightarrow> Inl e
                     | Inr xy2 \<Rightarrow>
                         Inr \<lparr>star_mask = bright,
                              star_sizes = sizes,
                              star_xy = select_mask xy bright,
                              lines = lines_xy_mod (x_max ecliptic_coords) (zip xy1 xy2),
                              xlim = (x_max ecliptic_coords, 0),
                              marks = map (plot_object ecliptic_coords observe t) objs\<rparr>))"

section \<open>Properties of the segmenter\<close>



text \<open>
  The three distances compared, in terms of the longitude difference \<open>a = lon0 - lon1\<close>:
  the latitude term is the same in all three and cancels.
\<close>

lemma shift_right_shorter:
  assumes "0 < xm"
  shows "dist_xy (vadd (l0, b0) (xm, 0)) (l1, b1) < dist_xy (l0, b0) (l1, b1)
           \<longleftrightarrow> l0 - l1 < - xm / 2"
proof -
  have "(l0 + xm - l1)\<^sup>2 - (l0 - l1)\<^sup>2 = xm * (2 * (l0 - l1) + xm)"
    by (simp add: power2_eq_square algebra_simps)
  then have "(l0 + xm - l1)\<^sup>2 < (l0 - l1)\<^sup>2 \<longleftrightarrow> xm * (2 * (l0 - l1) + xm) < 0"
    by linarith
  also have "\<dots> \<longleftrightarrow> 2 * (l0 - l1) + xm < 0"
    using assms by (simp add: mult_less_0_iff)
  also have "\<dots> \<longleftrightarrow> l0 - l1 < - xm / 2"
    by (simp add: field_simps)
  finally show ?thesis
    by (simp add: dist_xy_def vadd_def vsub_def)
qed

lemma shift_left_shorter:
  assumes "0 < xm"
  shows "dist_xy (l0, b0) (vadd (l1, b1) (xm, 0)) < dist_xy (l0, b0) (l1, b1)
           \<longleftrightarrow> xm / 2 < l0 - l1"
proof -
  have "(l0 - (l1 + xm))\<^sup>2 - (l0 - l1)\<^sup>2 = xm * (xm - 2 * (l0 - l1))"
    by (simp add: power2_eq_square algebra_simps)
  then have "(l0 - (l1 + xm))\<^sup>2 < (l0 - l1)\<^sup>2 \<longleftrightarrow> xm * (xm - 2 * (l0 - l1)) < 0"
    by linarith
  also have "\<dots> \<longleftrightarrow> xm - 2 * (l0 - l1) < 0"
    using assms by (simp add: mult_less_0_iff)
  also have "\<dots> \<longleftrightarrow> xm / 2 < l0 - l1"
    by (simp add: field_simps)
  finally show ?thesis
    by (simp add: dist_xy_def vadd_def vsub_def)
qed


lemma x_max_pos: "0 < x_max ecliptic_coords"
  by (simp add: x_max_def)

lemma vadd_ne_vsub:
  "xm \<noteq> 0 \<Longrightarrow> vadd p (xm, 0) \<noteq> vsub p (xm, 0)"
  "xm \<noteq> 0 \<Longrightarrow> vsub p (xm, 0) \<noteq> vadd p (xm, 0)"
  by (simp_all add: vadd_def vsub_def)

lemma wrap_line_cases:
  "wrap_line xm (p0, p1) =
     (if dist_xy (vadd p0 (xm, 0)) p1 < dist_xy p0 p1 then
        [(vadd p0 (xm, 0), p1), (p0, vsub p1 (xm, 0))]
      else if dist_xy p0 (vadd p1 (xm, 0)) < dist_xy p0 p1 then
        [(vsub p0 (xm, 0), p1), (p0, vadd p1 (xm, 0))]
      else [(p0, p1)])"
  by (simp add: wrap_line_def)

subsection \<open>Which branch is taken\<close>



text \<open>
  Without rounding, for longitudes in \<open>[0, P)\<close> the line is replaced by two segments exactly when
  \<open>\<bar>lon0 - lon1\<bar> > P / 2\<close>; then the right-shift pair is emitted when
  \<open>lon0 - lon1\<close> is negative and the left-shift pair when it is positive. The
  latitudes play no part: any other pair of latitudes gives the same number of segments.
\<close>

lemma exact_wrap_decided_by_longitudes:
  assumes "P = x_max ecliptic_coords"
    and "0 \<le> lon0" and "lon0 < P" and "0 \<le> lon1" and "lon1 < P"
  shows
    "(length (wrap_line P ((lon0, lat0), (lon1, lat1))) = 2 \<longleftrightarrow> \<bar>lon0 - lon1\<bar> > P / 2)
   \<and> (length (wrap_line P ((lon0, lat0), (lon1, lat1))) = 1 \<longleftrightarrow> \<bar>lon0 - lon1\<bar> \<le> P / 2)
   \<and> (wrap_line P ((lon0, lat0), (lon1, lat1))
        = [(vadd (lon0, lat0) (P, 0), (lon1, lat1)), ((lon0, lat0), vsub (lon1, lat1) (P, 0))]
      \<longleftrightarrow> \<bar>lon0 - lon1\<bar> > P / 2 \<and> lon0 - lon1 < 0)
   \<and> (wrap_line P ((lon0, lat0), (lon1, lat1))
        = [(vsub (lon0, lat0) (P, 0), (lon1, lat1)), ((lon0, lat0), vadd (lon1, lat1) (P, 0))]
      \<longleftrightarrow> \<bar>lon0 - lon1\<bar> > P / 2 \<and> lon0 - lon1 > 0)
   \<and> length (wrap_line P ((lon0, lat0'), (lon1, lat1')))
       = length (wrap_line P ((lon0, lat0), (lon1, lat1)))"
proof -
  have P: "0 < P" using assms(1) by (simp add: x_max_pos)
  note R = shift_right_shorter [OF P, of lon0 _ lon1]
  note L = shift_left_shorter [OF P, of lon0 _ lon1]
  have "P \<noteq> 0" using P by simp
  note ne = vadd_ne_vsub [OF this]
  show ?thesis
  proof (cases "lon0 - lon1 < - P / 2")
    case True
    then have "\<not> P / 2 < lon0 - lon1" "lon0 - lon1 < 0" "\<bar>lon0 - lon1\<bar> > P / 2"
      using P by linarith+
    with True show ?thesis using R L by (simp add: wrap_line_def ne)
  next
    case nr: False
    show ?thesis
    proof (cases "P / 2 < lon0 - lon1")
      case True
      then have "\<not> lon0 - lon1 < 0" "\<bar>lon0 - lon1\<bar> > P / 2" using P by linarith+
      with True nr show ?thesis using R L by (simp add: wrap_line_def ne)
    next
      case False
      with nr have "\<not> \<bar>lon0 - lon1\<bar> > P / 2" by linarith
      with False nr show ?thesis using R L by (simp add: wrap_line_def ne)
    qed
  qed
qed

text \<open>
  \<^bold>\<open>C2.\<close> When the plain distance is at most each of the two shifted distances, ties
  included, the line is emitted once and unchanged.
\<close>

theorem no_wrap_is_identity:
  assumes "dist_xy p0 p1 \<le> dist_xy (vadd p0 (P, 0)) p1"
    and "dist_xy p0 p1 \<le> dist_xy p0 (vadd p1 (P, 0))"
  shows "wrap_line P (p0, p1) = [(p0, p1)] \<and> lines_xy_mod P [(p0, p1)] = [(p0, p1)]"
  using assms by (simp add: lines_xy_mod_def wrap_line_cases not_less [symmetric])

theorem no_wrap_is_identity_witness:
  "dist_xy (0, 0) (180, 0) = dist_xy (vadd (0, 0) (360, 0)) (180, 0)
   \<and> dist_xy (0, 0) (180, 0) \<le> dist_xy (0, 0) (vadd (180, 0) (360, 0))
   \<and> wrap_line 360 ((0, 0), (180, 0)) = [((0, 0), (180, 0))]
   \<and> lines_xy_mod 360 [((0, 0), (180, 0))] = [((0, 0), (180, 0))]"
proof -
  have a: "dist_xy (0, 0) (180, 0) = dist_xy (vadd (0, 0) (360, 0)) (180, 0)"
    by (simp add: dist_xy_def vadd_def vsub_def)
  have b: "dist_xy (0, 0) (180, 0) \<le> dist_xy (0, 0) (vadd (180, 0) (360, 0))"
    by (simp add: dist_xy_def vadd_def vsub_def)
  from a have a': "dist_xy (0, 0) (180, 0) \<le> dist_xy (vadd (0, 0) (360, 0)) (180, 0)"
    by simp
  show ?thesis using a b no_wrap_is_identity [OF a' b] by simp
qed

text \<open>
  \<^bold>\<open>C5.\<close> The line from \<open>(359, 10)\<close> to \<open>(2, -5)\<close> in the ecliptic frame takes the
  left-shift branch: it becomes \<open>[(-1, 10), (2, -5)]\<close> followed by
  \<open>[(359, 10), (362, -5)]\<close>.
\<close>

theorem scenario_359_to_2:
  "lines_xy_mod (x_max (PyBool True)) [((359, 10), (2, -5))]
     = [((-1, 10), (2, -5)), ((359, 10), (362, -5))]
   \<and> \<not> dist_xy (359, 10) (2, -5) > dist_xy (vadd (359, 10) (x_max (PyBool True), 0)) (2, -5)
   \<and> dist_xy (359, 10) (2, -5) > dist_xy (359, 10) (vadd (2, -5) (x_max (PyBool True), 0))
   \<and> [((-1, 10), (2, -5)), ((359, 10), (362, -5))]
       = [(vsub (359, 10) (360, 0), (2, -5)), ((359, 10), vadd (2, -5) (360, 0))]"
  by (simp add: lines_xy_mod_def wrap_line_def x_max_def dist_xy_def vadd_def vsub_def)

subsection \<open>What the emitted segments look like\<close>



text \<open>
  Without rounding, when one of the two wrapping conditions holds, exactly two segments are
  emitted, with the same latitudes; in the right-shift branch the second is the first
  moved by \<open>(-P, 0)\<close>, in the left-shift branch the second is the first moved by
  \<open>(P, 0)\<close>.
\<close>

lemma exact_wrapped_pair_is_translate:
  assumes "dist_xy p0 p1 > dist_xy (vadd p0 (P, 0)) p1
         \<or> dist_xy p0 p1 > dist_xy p0 (vadd p1 (P, 0))"
  shows "\<exists>s1 s2. wrap_line P (p0, p1) = [s1, s2]
           \<and> snd (fst s2) = snd (fst s1) \<and> snd (snd s2) = snd (snd s1)
           \<and> (if dist_xy p0 p1 > dist_xy (vadd p0 (P, 0)) p1
               then s1 = (vadd p0 (P, 0), p1) \<and> s2 = translate (- P, 0) s1
               else s1 = (vsub p0 (P, 0), p1) \<and> s2 = translate (P, 0) s1)"
  using assms
  by (auto simp: wrap_line_cases translate_def vadd_def vsub_def split: if_splits)

section \<open>Properties of the brightness filter\<close>

lemma set_labels_eq:
  "set_labels s keys v =
     (if set keys \<subseteq> dom s then Inr (\<lambda>h. if h \<in> set keys then Some v else s h)
      else Inl KeyError)"
  by (auto simp: set_labels_def list_all_iff)

lemma bright_stars_eq:
  "bright_stars S L e1 e2 =
     (if set e1 \<union> set e2 \<subseteq> dom S
      then Inr (\<lambda>h. if h \<in> set e1 \<union> set e2 then Some True
                     else map_option (\<lambda>m. m \<le> L) (S h))
      else Inl KeyError)"
proof -
  let ?b = "\<lambda>h. map_option (\<lambda>m. m \<le> L) (S h)"
  have d0: "dom ?b = dom S" by (auto simp: dom_def)
  show ?thesis
  proof (cases "set e1 \<subseteq> dom S")
    case False
    then show ?thesis by (simp add: bright_stars_def set_labels_eq d0)
  next
    case True
    let ?b1 = "\<lambda>h. if h \<in> set e1 then Some True else ?b h"
    have d1: "dom ?b1 = dom S" using True by (auto simp: dom_def split: if_splits)
    have "bright_stars S L e1 e2 = set_labels ?b1 e2 True"
      using True by (simp add: bright_stars_def set_labels_eq d0)
    also have "\<dots> = (if set e2 \<subseteq> dom S
        then Inr (\<lambda>h. if h \<in> set e2 then Some True else ?b1 h) else Inl KeyError)"
      by (simp only: set_labels_eq d1)
    finally show ?thesis using True by (auto intro!: ext)
  qed
qed

text \<open>
  \<^bold>\<open>C4.\<close> When every edge endpoint is in the catalogue the mask exists, and a star of the
  catalogue is marked \<open>True\<close> exactly when its magnitude is at most the limit or it is
  an endpoint, in either position, of some edge; otherwise it is marked \<open>False\<close>. When
  an endpoint is missing from the catalogue the assignment raises \<open>KeyError\<close> and
  there is no mask.
\<close>

theorem inclusion_mask_iff:
  fixes edges :: "(nat \<times> nat) list"
  shows
  "(bright_stars stars_magnitude L (map fst edges) (map snd edges) = Inl KeyError
      \<longleftrightarrow> \<not> (\<forall>e \<in> set edges. fst e \<in> dom stars_magnitude \<and> snd e \<in> dom stars_magnitude))
   \<and> (\<forall>msk. bright_stars stars_magnitude L (map fst edges) (map snd edges) = Inr msk \<longrightarrow>
        (\<forall>h m. stars_magnitude h = Some m \<longrightarrow>
           (msk h = Some True \<longleftrightarrow> m \<le> L \<or> (\<exists>e \<in> set edges. h = fst e \<or> h = snd e))
         \<and> (msk h = Some False \<longleftrightarrow> \<not> (m \<le> L \<or> (\<exists>e \<in> set edges. h = fst e \<or> h = snd e)))))"
proof -
  have sub: "set (map fst edges) \<union> set (map snd edges) \<subseteq> dom stars_magnitude
      \<longleftrightarrow> (\<forall>e \<in> set edges. fst e \<in> dom stars_magnitude \<and> snd e \<in> dom stars_magnitude)"
    by auto
  have mem: "h \<in> set (map fst edges) \<union> set (map snd edges)
      \<longleftrightarrow> (\<exists>e \<in> set edges. h = fst e \<or> h = snd e)" for h
    by auto
  show ?thesis
    unfolding bright_stars_eq sub mem by auto
qed

theorem inclusion_mask_iff_witness:
  "bright_stars [1 \<mapsto> 2, 2 \<mapsto> 5, 3 \<mapsto> 6] 3 (map fst [(1, 2 :: nat)]) (map snd [(1 :: nat, 2)]) \<noteq> Inl KeyError
   \<and> (\<exists>msk. bright_stars [1 \<mapsto> 2, 2 \<mapsto> 5, 3 \<mapsto> 6] 3
              (map fst [(1, 2 :: nat)]) (map snd [(1 :: nat, 2)]) = Inr msk
        \<and> msk 1 = Some True \<and> msk 2 = Some True \<and> msk 3 = Some False)"
proof -
  let ?S = "[1 \<mapsto> 2, 2 \<mapsto> 5, 3 \<mapsto> 6] :: real series"
  let ?E = "[(1, 2)] :: (nat \<times> nat) list"
  note T = inclusion_mask_iff [of ?S 3 ?E]
  from T have ok: "bright_stars ?S 3 (map fst ?E) (map snd ?E) \<noteq> Inl KeyError"
    by simp
  then obtain msk where m: "bright_stars ?S 3 (map fst ?E) (map snd ?E) = Inr msk"
    by (cases "bright_stars ?S 3 (map fst ?E) (map snd ?E)") (auto intro: error.exhaust)
  from T m have "msk 1 = Some True" "msk 2 = Some True" "msk 3 = Some False"
    by simp_all
  with ok m show ?thesis by blast
qed

section \<open>Properties of the marker sizes\<close>

text \<open>
  The base \<open>1.5 + limiting_magnitude - magnitude\<close> is positive for every star within the
  limit, and stays non-negative up to \<open>limiting_magnitude + 1.5\<close>: there the size
  falls as the magnitude rises. Past that point the base is negative and its square
  rises again.
\<close>

lemma marker_size_square_mono:
  fixes L m1 m2 :: real
  assumes "m1 < m2" and "m2 \<le> L + 1.5"
  shows "(1.5 + L - m2)\<^sup>2 < (1.5 + L - m1)\<^sup>2"
proof -
  have "0 \<le> 1.5 + L - m2" "1.5 + L - m2 < 1.5 + L - m1" using assms by simp_all
  then show ?thesis by (simp add: power_strict_mono)
qed

lemma marker_size_square_antimono:
  fixes L m1 m2 :: real
  assumes "m1 < m2" and "L + 1.5 \<le> m1"
  shows "(1.5 + L - m1)\<^sup>2 < (1.5 + L - m2)\<^sup>2"
proof -
  have "0 \<le> m1 - L - 1.5" "m1 - L - 1.5 < m2 - L - 1.5" using assms by simp_all
  then have "(m1 - L - 1.5)\<^sup>2 < (m2 - L - 1.5)\<^sup>2" by (simp add: power_strict_mono)
  moreover have "(m1 - L - 1.5)\<^sup>2 = (1.5 + L - m1)\<^sup>2" "(m2 - L - 1.5)\<^sup>2 = (1.5 + L - m2)\<^sup>2"
    by (simp_all add: power2_eq_square algebra_simps)
  ultimately show ?thesis by simp
qed

lemma marker_size_decreasing_up_to_limit:
  assumes "magnitude h1 = Some m1" and "magnitude h2 = Some m2"
    and "m1 < m2" and "m2 \<le> L + 1.5"
  shows "\<exists>s1 s2. marker_size L magnitude h1 = Some s1 \<and> marker_size L magnitude h2 = Some s2
           \<and> s2 < s1"
  using assms marker_size_square_mono [of m1 m2 L] by (simp add: marker_size_def)

lemma marker_size_increasing_beyond_limit:
  assumes "magnitude h1 = Some m1" and "magnitude h2 = Some m2"
    and "m1 < m2" and "L + 1.5 \<le> m1"
  shows "\<exists>s1 s2. marker_size L magnitude h1 = Some s1 \<and> marker_size L magnitude h2 = Some s2
           \<and> s1 < s2"
  using assms marker_size_square_antimono [of m1 m2 L] by (simp add: marker_size_def)

section \<open>Properties of the chart\<close>

lemma loc_eq:
  "loc s keys =
     (if set keys \<subseteq> dom s then Inr (map (\<lambda>k. the (s k)) keys) else Inl KeyError)"
  by (auto simp: loc_def list_all_iff)

lemma plot_solar_sys_objects_eq:
  "plot_solar_sys_objects S sp cs ob t L ec =
     (if set (map fst (concat (map snd cs))) \<union> set (map snd (concat (map snd cs))) \<subseteq> dom S
      then Inr \<lparr>star_mask =
                  (\<lambda>h. if h \<in> set (map fst (concat (map snd cs))) \<union> set (map snd (concat (map snd cs)))
                        then Some True else map_option (\<lambda>m. m \<le> L) (S h)),
                star_sizes =
                  marker_size L (select_mask S
                    (\<lambda>h. if h \<in> set (map fst (concat (map snd cs))) \<union> set (map snd (concat (map snd cs)))
                          then Some True else map_option (\<lambda>m. m \<le> L) (S h))),
                star_xy =
                  select_mask (\<lambda>h. map_option (\<lambda>m. lon_lat ec (sp h)) (S h))
                    (\<lambda>h. if h \<in> set (map fst (concat (map snd cs))) \<union> set (map snd (concat (map snd cs)))
                          then Some True else map_option (\<lambda>m. m \<le> L) (S h)),
                lines =
                  lines_xy_mod (x_max ec)
                    (zip (map (\<lambda>k. the (map_option (\<lambda>m. lon_lat ec (sp k)) (S k)))
                            (map fst (concat (map snd cs))))
                         (map (\<lambda>k. the (map_option (\<lambda>m. lon_lat ec (sp k)) (S k)))
                            (map snd (concat (map snd cs))))),
                xlim = (x_max ec, 0),
                marks = map (plot_object ec ob t) objs\<rparr>
      else Inl KeyError)"
proof -
  have d: "dom (\<lambda>h. map_option (\<lambda>m. lon_lat ec (sp h)) (S h)) = dom S"
    by (auto simp: dom_def)
  show ?thesis
    unfolding plot_solar_sys_objects_def Let_def bright_stars_eq loc_eq d
    by simp
qed

lemma endpoints_subset:
  "set (map fst es) \<union> set (map snd es) \<subseteq> D \<longleftrightarrow> (\<forall>e \<in> set es. fst e \<in> D \<and> snd e \<in> D)"
  by auto

lemma lon_lat_truthy: "lon_lat ec = lon_lat (PyBool (truthy ec))"
  by (rule ext) (simp add: lon_lat_def)

lemma plot_object_truthy: "plot_object ec = plot_object (PyBool (truthy ec))"
  by (intro ext) (simp add: plot_object_def lon_lat_def)

lemma x_max_truthy: "x_max ec = x_max (PyBool (truthy ec))"
  by (simp add: x_max_def)

text \<open>
  \<^bold>\<open>C3.\<close> With the default limit 3 and an edge joining two catalogue stars of magnitudes 5
  and 6, both stars are included and the fainter one gets the larger marker: sizes
  \<open>1/4\<close> and \<open>9/4\<close>.
\<close>

theorem faint_edge_star_sizes:
  "map_sum id (\<lambda>sc. (star_mask sc 1, star_mask sc 2, star_sizes sc 1, star_sizes sc 2))
     (plot_solar_sys_objects [1 \<mapsto> 5, 2 \<mapsto> 6] sp [(name, [(1, 2)])] ob t 3 ec)
   = Inr (Some True, Some True, Some (1 / 4), Some (9 / 4))"
  by (simp add: plot_solar_sys_objects_eq marker_size_def select_mask_def power2_eq_square)

text \<open>
  \<^bold>\<open>C7.\<close> For every body the motion vector is the point drawn for the observation at
  \<open>t + 7\<close> minus the point drawn for the observation at \<open>t\<close>, component by
  component and in the frame of the chart; the arrow's far end is the marker plus that
  vector. Nothing reduces either component modulo the period.
\<close>

theorem motion_is_position_difference:
  "motion (plot_object ec ob t entry)
     = vsub (lon_lat ec (ob (fst entry) (t + 7))) (lon_lat ec (ob (fst entry) t))
   \<and> marker_xy (plot_object ec ob t entry) = lon_lat ec (ob (fst entry) t)
   \<and> marker_xy (plot_object ec ob (t + 7) entry) = lon_lat ec (ob (fst entry) (t + 7))
   \<and> tip_xy (plot_object ec ob t entry)
       = vadd (marker_xy (plot_object ec ob t entry)) (motion (plot_object ec ob t entry))"
  by (cases entry)
     (simp add: plot_object_def lon_lat_def ecliptic_latlon_def radec_def vsub_def vadd_def Let_def)

theorem motion_is_position_difference_witness:
  "motion (plot_object (PyBool True)
       (\<lambda>obj t. \<lparr>ecl_lat_degrees = 1, ecl_lon_degrees = (if t < 5 then 359 else 2),
                  ra_hours = 0, dec_degrees = 0\<rparr>)
       0 (''sun'', ''yellow'', 10, ''Sun''))
   = (- 357, 0)"
  using motion_is_position_difference [of "PyBool True"
       "\<lambda>obj t. \<lparr>ecl_lat_degrees = 1, ecl_lon_degrees = (if t < 5 then 359 else 2),
                  ra_hours = 0, dec_degrees = 0\<rparr>"
       0 "(''sun'', ''yellow'', 10, ''Sun'')"]
  by (simp add: lon_lat_def ecliptic_latlon_def vsub_def)

text \<open>
  \<^bold>\<open>C8.\<close> A selector that is neither \<open>True\<close> nor \<open>False\<close> is accepted: with the string
  \<open>galactic\<close> the chart is built, in the ecliptic frame.
\<close>

theorem unrecognised_frame_is_accepted:
  "map_sum id xlim
     (plot_solar_sys_objects [1 \<mapsto> 2, 2 \<mapsto> 5] (\<lambda>h. \<lparr>ecl_lat_degrees = 0, ecl_lon_degrees = 0, ra_hours = 0, dec_degrees = 0\<rparr>)
        [(''Xyz'', [(1, 2)])] (\<lambda>obj t. \<lparr>ecl_lat_degrees = 0, ecl_lon_degrees = 0, ra_hours = 0, dec_degrees = 0\<rparr>) 0 3
        (PyStr ''galactic''))
   = Inr (360, 0)"
  by (simp add: plot_solar_sys_objects_eq x_max_def)

text \<open>
  \<^bold>\<open>C8, as the code has it.\<close> The selector is never validated and no frame error exists: the
  code only tests its truth value. A selector that is \<open>None\<close>, a bool, an int or a str
  gives exactly the result that \<open>True\<close> gives when it is truthy and that \<open>False\<close>
  gives when it is falsy, with period 360 in the first case and 24 in the second.
\<close>

theorem frame_read_by_truthiness:
  "plot_solar_sys_objects S sp cs ob t L ec
     = plot_solar_sys_objects S sp cs ob t L (PyBool (truthy ec))
   \<and> x_max ec = (if truthy ec then 360 else 24)
   \<and> (\<forall>sc. plot_solar_sys_objects S sp cs ob t L ec = Inr sc
        \<longrightarrow> xlim sc = (if truthy ec then 360 else 24, 0))"
proof -
  have 1: "plot_solar_sys_objects S sp cs ob t L ec
     = plot_solar_sys_objects S sp cs ob t L (PyBool (truthy ec))"
    unfolding plot_solar_sys_objects_eq
    using lon_lat_truthy [of ec] plot_object_truthy [of ec] x_max_truthy [of ec]
    by simp
  have 2: "x_max ec = (if truthy ec then 360 else 24)"
    by (simp add: x_max_def)
  have 3: "\<forall>sc. plot_solar_sys_objects S sp cs ob t L ec = Inr sc
        \<longrightarrow> xlim sc = (if truthy ec then 360 else 24, 0)"
    unfolding plot_solar_sys_objects_eq by (auto simp: x_max_def)
  from 1 2 3 show ?thesis by blast
qed

theorem frame_read_by_truthiness_witness:
  "plot_solar_sys_objects [1 \<mapsto> 2, 2 \<mapsto> 5]
       (\<lambda>h. \<lparr>ecl_lat_degrees = 0, ecl_lon_degrees = 0, ra_hours = 0, dec_degrees = 0\<rparr>)
       [(''Xyz'', [(1, 2)])]
       (\<lambda>obj t. \<lparr>ecl_lat_degrees = 0, ecl_lon_degrees = 0, ra_hours = 0, dec_degrees = 0\<rparr>)
       0 3 (PyInt 7)
     = plot_solar_sys_objects [1 \<mapsto> 2, 2 \<mapsto> 5]
       (\<lambda>h. \<lparr>ecl_lat_degrees = 0, ecl_lon_degrees = 0, ra_hours = 0, dec_degrees = 0\<rparr>)
       [(''Xyz'', [(1, 2)])]
       (\<lambda>obj t. \<lparr>ecl_lat_degrees = 0, ecl_lon_degrees = 0, ra_hours = 0, dec_degrees = 0\<rparr>)
       0 3 (PyBool True)
   \<and> x_max (PyInt 7) = 360"
  (is "?A \<and> ?B")
proof -
  note T = frame_read_by_truthiness [of "[1 \<mapsto> 2, 2 \<mapsto> 5]"
       "\<lambda>h. \<lparr>ecl_lat_degrees = 0, ecl_lon_degrees = 0, ra_hours = 0, dec_degrees = 0\<rparr>"
       "[(''Xyz'', [(1, 2)])]"
       "\<lambda>obj t. \<lparr>ecl_lat_degrees = 0, ecl_lon_degrees = 0, ra_hours = 0, dec_degrees = 0\<rparr>"
       0 3 "PyInt 7"]
  from T [THEN conjunct1] have a: ?A by simp
  from T [THEN conjunct2, THEN conjunct1] have b: ?B by simp
  from a b show ?thesis by (rule conjI)
qed

section \<open>Float64 rounding\<close>

subsection \<open>Rounding to the nearest integer, ties to even\<close>

lemma round_even_near:
  assumes "\<bar>y - of_int m\<bar> < 1 / 2"
  shows "round_even y = m"
proof (cases "of_int m \<le> y")
  case True
  with assms have "\<lfloor>y\<rfloor> = m" by (intro floor_unique) linarith+
  with assms True show ?thesis by (simp add: round_even_def)
next
  case False
  with assms have "\<lfloor>y\<rfloor> = m - 1" by (intro floor_unique) (simp, linarith+)
  with assms False show ?thesis by (simp add: round_even_def)
qed

lemma round_even_of_int [simp]: "round_even (of_int m) = m"
  by (rule round_even_near) simp




subsection \<open>The exponent and the rounded value\<close>

lemma two_powr_int: "(2::real) powr real_of_int k = 2 powi k"
  by (simp add: powr_real_of_int')

lemma expo_abs [simp]: "expo \<bar>x\<bar> = expo x" and expo_minus [simp]: "expo (- x) = expo x"
  by (simp_all add: expo_def)


lemma expo_lower:
  assumes "x \<noteq> 0" and "- 1022 < expo x"
  shows "2 powi expo x \<le> \<bar>x\<bar>"
proof -
  from assms(2) have "expo x = \<lfloor>log 2 \<bar>x\<bar>\<rfloor>" by (simp add: expo_def max_def split: if_splits)
  then have "of_int (expo x) \<le> log 2 \<bar>x\<bar>" by simp
  then have "2 powr of_int (expo x) \<le> \<bar>x\<bar>"
    using assms(1) by (simp add: le_log_iff)
  then show ?thesis by (simp only: two_powr_int)
qed

lemma expo_eqI:
  assumes "2 powi k \<le> \<bar>x\<bar>" and "\<bar>x\<bar> < 2 powi (k + 1)" and "- 1022 \<le> k"
  shows "expo x = k"
proof -
  have pos: "0 < \<bar>x\<bar>" using assms(1) zero_less_power_int [of "2::real" k] by linarith
  have "\<lfloor>log 2 \<bar>x\<bar>\<rfloor> = k"
    using assms(1,2) pos by (simp add: floor_log_eq_powr_iff two_powr_int del: of_int_add)
  with assms(3) show ?thesis by (simp add: expo_def)
qed


lemma fl64_zero [simp]: "fl64 0 = 0"
  by (simp add: fl64_def)




lemma fl64_near:
  assumes "2 powi k \<le> \<bar>x\<bar>" and "\<bar>x\<bar> < 2 powi (k + 1)" and "- 1022 \<le> k"
    and "\<bar>x - of_int m * 2 powi (k - 52)\<bar> < 2 powi (k - 52) / 2"
  shows "fl64 x = of_int m * 2 powi (k - 52)"
proof -
  have e: "expo x = k" using assms(1-3) by (rule expo_eqI)
  have x: "x \<noteq> 0"
  proof
    assume "x = 0"
    with assms(1) have "(2::real) powi k \<le> 0" by simp
    moreover have "(0::real) < 2 powi k" by simp
    ultimately show False by linarith
  qed
  let ?u = "(2::real) powi (k - 52)"
  have u: "0 < ?u" by simp
  have "\<bar>x / ?u - of_int m\<bar> = \<bar>x - of_int m * ?u\<bar> / ?u"
    using u by (simp add: field_simps abs_divide)
  also have "\<dots> < 1 / 2" using assms(4) u by (simp add: field_simps)
  finally have "round_even (x / ?u) = m" by (rule round_even_near)
  with e x show ?thesis by (simp add: fl64_def)
qed

lemma fl64_repr:
  assumes "\<bar>m\<bar> < 2 ^ 53" and "- 1074 \<le> k"
  shows "fl64 (of_int m * 2 powi k) = of_int m * 2 powi k"
proof (cases "m = 0")
  case True
  then show ?thesis by simp
next
  case False
  define x where "x = of_int m * (2::real) powi k"
  define e where "e = expo x - 52"
  have x: "x \<noteq> 0" using False by (simp add: x_def)
  have p53: "(2::real) powi (k + 53) = 2 powi k * 2 ^ 53"
    by (subst power_int_add) simp_all
  have "real_of_int \<bar>m\<bar> < real_of_int (2 ^ 53)"
    using assms(1) by (simp only: of_int_less_iff)
  then have "real_of_int \<bar>m\<bar> < 2 ^ 53" by simp
  then have "real_of_int \<bar>m\<bar> * 2 powi k < 2 ^ 53 * 2 powi k"
    by (intro mult_strict_right_mono) simp_all
  moreover have "\<bar>x\<bar> = real_of_int \<bar>m\<bar> * 2 powi k"
    by (simp add: x_def abs_mult)
  ultimately have lt: "\<bar>x\<bar> < 2 powi (k + 53)"
    by (simp only: p53 mult.commute)
  have "expo x \<le> k + 52"
  proof (rule ccontr)
    assume "\<not> expo x \<le> k + 52"
    then have g: "k + 53 \<le> expo x" by simp
    with assms(2) have "- 1022 < expo x" by simp
    from expo_lower [OF x this] have "2 powi expo x \<le> \<bar>x\<bar>" .
    moreover have "(2::real) powi (k + 53) \<le> 2 powi expo x"
      using g by (intro power_int_increasing) simp_all
    ultimately show False using lt by linarith
  qed
  then have ek: "e \<le> k" by (simp add: e_def)
  define d where "d = nat (k - e)"
  have k: "k = e + int d" using ek by (simp add: d_def)
  have pk: "(2::real) powi k = 2 powi e * 2 ^ d"
    unfolding k by (subst power_int_add) simp_all
  have pe: "(0::real) < 2 powi e" by simp
  have "x / 2 powi e = real_of_int m * 2 ^ d"
    unfolding x_def pk using pe by simp
  also have "\<dots> = real_of_int (m * 2 ^ d)" by simp
  finally have "round_even (x / 2 powi e) = m * 2 ^ d"
    by (simp only: round_even_of_int)
  then have "fl64 x = real_of_int (m * 2 ^ d) * 2 powi e"
    using x by (simp add: fl64_def e_def)
  also have "\<dots> = real_of_int m * (2 powi e * 2 ^ d)" by simp
  also have "\<dots> = x" by (simp only: pk [symmetric] x_def)
  finally show ?thesis by (simp only: x_def)
qed

subsection \<open>Rounding is monotone\<close>





lemma fl64_of_int:
  assumes "\<bar>m\<bar> < 2 ^ 53"
  shows "fl64 (of_int m) = of_int m"
  using fl64_repr [OF assms, of 0] by simp



lemma fl64_reprI:
  assumes "x = of_int m * 2 powi k" and "\<bar>m\<bar> < 2 ^ 53" and "- 1074 \<le> k"
  shows "fl64 x = x"
  unfolding assms(1) using assms(2,3) by (rule fl64_repr)

lemma fl64_nearI:
  assumes "2 powi k \<le> \<bar>x\<bar>" and "\<bar>x\<bar> < 2 powi (k + 1)" and "- 1022 \<le> k"
    and "y = of_int m * 2 powi (k - 52)"
    and "\<bar>x - y\<bar> < 2 powi (k - 52) / 2"
  shows "fl64 x = y"
  unfolding assms(4) using assms(1-3) assms(5) [unfolded assms(4)] by (rule fl64_near)

lemma fl64_numeral [simp]:
  "fl64 0 = 0" "fl64 1 = 1" "fl64 12 = 12" "fl64 24 = 24" "fl64 36 = 36" "fl64 80 = 80"
  "fl64 160 = 160" "fl64 164 = 164" "fl64 359 = 359" "fl64 360 = 360"
  "fl64 1296 = 1296" "fl64 25600 = 25600" "fl64 26896 = 26896" "fl64 128881 = 128881"
  using fl64_of_int [of 1] fl64_of_int [of 12] fl64_of_int [of 24] fl64_of_int [of 36]
    fl64_of_int [of 80] fl64_of_int [of 160] fl64_of_int [of 164] fl64_of_int [of 359]
    fl64_of_int [of 360] fl64_of_int [of 1296] fl64_of_int [of 25600] fl64_of_int [of 26896]
    fl64_of_int [of 128881]
  by simp_all


subsection \<open>The rounding error, and what a shorter shifted distance needs\<close>











section \<open>Properties of the segmenter in float64 arithmetic\<close>

subsection \<open>Two lines of the equatorial chart with the same longitudes\<close>























subsection \<open>A latitude difference that absorbs the longitude difference\<close>

text \<open>
  From \<open>(359, 2 ^ 40)\<close> to \<open>(2, 0)\<close>, period 360: the longitudes differ by 357, yet
  the three sums of squares round to the same double \<open>2 ^ 80\<close> and the line is emitted
  unchanged.
\<close>

lemma huge_lat_steps:
  "fl64 (359 - 2) = 357" "fl64 (2 ^ 40 - 0) = 2 ^ 40" "fl64 (2 ^ 40 + 0) = 2 ^ 40"
  "fl64 (359 + 360) = 719" "fl64 (719 - 2) = 717" "fl64 (2 + 360) = 362" "fl64 (359 - 362) = - 3"
  "fl64 (357\<^sup>2) = 127449" "fl64 (717\<^sup>2) = 514089" "fl64 ((- 3)\<^sup>2) = 9"
  "fl64 ((2 ^ 40)\<^sup>2) = 2 ^ 80"
  using fl64_of_int [of 357] fl64_of_int [of "2 ^ 40"] fl64_of_int [of 719] fl64_of_int [of 717]
    fl64_of_int [of 362] fl64_of_int [of "- 3"] fl64_of_int [of 127449] fl64_of_int [of 514089]
    fl64_of_int [of 9] fl64_repr [of 1 80]
  by simp_all

lemma huge_lat_sums:
  "fl64 (127449 + 2 ^ 80) = 2 ^ 80" "fl64 (514089 + 2 ^ 80) = 2 ^ 80" "fl64 (9 + 2 ^ 80) = 2 ^ 80"
  by (rule fl64_nearI [where k = 80 and m = "2 ^ 52"]; simp)+

lemma wrap_line64_huge_latitude:
  "wrap_line64 360 ((359, 2 ^ 40), (2, 0)) = [((359, 2 ^ 40), (2, 0))]"
proof -
  have p: "dist64 (359, 2 ^ 40) (2, 0) = fl64 (sqrt (2 ^ 80))"
    by (simp only: dist64_def vsub64_def fst_conv snd_conv huge_lat_steps huge_lat_sums)
  have r: "dist64 (vadd64 (359, 2 ^ 40) (360, 0)) (2, 0) = fl64 (sqrt (2 ^ 80))"
    by (simp only: dist64_def vsub64_def vadd64_def fst_conv snd_conv huge_lat_steps huge_lat_sums)
  have z: "fl64 (0 + 0) = 0" by simp
  have l: "dist64 (359, 2 ^ 40) (vadd64 (2, 0) (360, 0)) = fl64 (sqrt (2 ^ 80))"
    by (simp only: dist64_def vsub64_def vadd64_def fst_conv snd_conv huge_lat_steps huge_lat_sums
        z)
  show ?thesis
    unfolding wrap_line64_def fst_conv snd_conv p r l by simp
qed




subsection \<open>A line of the ecliptic chart that starts next to longitude 0\<close>

text \<open>
  From \<open>(1 / 2 ^ 60, 0)\<close> to \<open>(359, 0)\<close>, period 360: the sum \<open>1 / 2 ^ 60 + 360\<close>
  rounds to 360.
\<close>

lemma tiny_repr: "fl64 (1 / 2 ^ 60) = 1 / 2 ^ 60"
  by (rule fl64_reprI [where m = 1 and k = "- 60"]) simp_all

lemma tiny_plus_360: "fl64 (1 / 2 ^ 60 + 360) = 360"
  by (rule fl64_nearI [where k = 8 and m = "360 * 2 ^ 44"]) simp_all

lemma tiny_minus_359: "fl64 (1 / 2 ^ 60 - 359) = - 359"
  by (rule fl64_nearI [where k = 8 and m = "- (359 * 2 ^ 44)"]) simp_all

lemma small_ints:
  "fl64 (0 + 0) = 0" "fl64 (0 - 0) = 0" "fl64 (0\<^sup>2) = 0"
  "fl64 (360 - 359) = 1" "fl64 (359 - 360) = - 1" "fl64 (0 - 359) = - 359" "fl64 (0 + 360) = 360"
  "fl64 (360 + - 360) = 0" "fl64 (359 + - 360) = - 1"
  "fl64 ((- 359)\<^sup>2) = 128881" "fl64 (128881 + 0) = 128881"
  "fl64 (1\<^sup>2) = 1" "fl64 (1 + 0) = 1"
  using fl64_of_int [of "- 1"] fl64_of_int [of "- 359"] by simp_all

lemma sqrt_128881: "sqrt 128881 = 359"
  by (rule real_sqrt_unique) simp_all

lemma dist64_plain_tiny: "dist64 (1 / 2 ^ 60, 0) (359, 0) = 359"
  by (simp only: dist64_def vsub64_def fst_conv snd_conv tiny_minus_359 small_ints sqrt_128881
      fl64_numeral)

lemma dist64_right_tiny: "dist64 (vadd64 (1 / 2 ^ 60, 0) (360, 0)) (359, 0) = 1"
  by (simp only: dist64_def vsub64_def vadd64_def fst_conv snd_conv tiny_plus_360 small_ints
      real_sqrt_one fl64_numeral)

lemma wrap_line64_tiny: "wrap_line64 360 ((1 / 2 ^ 60, 0), (359, 0))
    = [((360, 0), (359, 0)), ((1 / 2 ^ 60, 0), (- 1, 0))]"
proof -
  have "wrap_line64 360 ((1 / 2 ^ 60, 0), (359, 0))
      = [(vadd64 (1 / 2 ^ 60, 0) (360, 0), (359, 0)), ((1 / 2 ^ 60, 0), vsub64 (359, 0) (360, 0))]"
    unfolding wrap_line64_def fst_conv snd_conv dist64_plain_tiny dist64_right_tiny by simp
  then show ?thesis
    by (simp only: vadd64_def vsub64_def fst_conv snd_conv tiny_plus_360 small_ints)
qed

lemma dist64_plain_origin: "dist64 (0, 0) (359, 0) = 359"
  by (simp only: dist64_def vsub64_def fst_conv snd_conv small_ints sqrt_128881 fl64_numeral)

lemma dist64_right_origin: "dist64 (vadd64 (0, 0) (360, 0)) (359, 0) = 1"
  by (simp only: dist64_def vsub64_def vadd64_def fst_conv snd_conv small_ints
      real_sqrt_one fl64_numeral)

text \<open>
  \<^bold>\<open>C10.\<close> The two emitted segments need not be translates of each other. The line from
  \<open>(1 / 2 ^ 60, 0)\<close> to \<open>(359, 0)\<close> takes the right-shift branch; its first segment
  starts at longitude 360, and moved by \<open>(-360, 0)\<close> it starts at longitude 0, while
  the second segment starts at \<open>1 / 2 ^ 60\<close>.
\<close>

theorem wrapped64_pair_not_translate:
  "fl64 (1 / 2 ^ 60) = 1 / 2 ^ 60
   \<and> dist64 (1 / 2 ^ 60, 0) (359, 0) > dist64 (vadd64 (1 / 2 ^ 60, 0) (360, 0)) (359, 0)
   \<and> wrap_line64 360 ((1 / 2 ^ 60, 0), (359, 0))
       = [((360, 0), (359, 0)), ((1 / 2 ^ 60, 0), (- 1, 0))]
   \<and> translate64 (- 360, 0) ((360, 0), (359, 0)) = ((0, 0), (- 1, 0))
   \<and> ((1 / 2 ^ 60, 0), (- 1, 0)) \<noteq> (((0, 0), (- 1, 0)) :: line)"
proof -
  have d: "dist64 (1 / 2 ^ 60, 0) (359, 0) > dist64 (vadd64 (1 / 2 ^ 60, 0) (360, 0)) (359, 0)"
    unfolding dist64_plain_tiny dist64_right_tiny by simp
  have t: "translate64 (- 360, 0) ((360, 0), (359, 0)) = ((0, 0), (- 1, 0))"
    by (simp only: translate64_def vadd64_def fst_conv snd_conv small_ints)
  have n: "((1 / 2 ^ 60, 0), (- 1, 0)) \<noteq> (((0, 0), (- 1, 0)) :: line)" by simp
  from tiny_repr d wrap_line64_tiny t n show ?thesis by blast
qed

text \<open>
  \<^bold>\<open>C10, as the code has it.\<close> For float64 latitudes, when one of the two wrapping
  conditions holds exactly two segments are emitted, both with the latitudes of the
  line: \<open>[p0 + (P, 0), p1]\<close> then \<open>[p0, p1 - (P, 0)]\<close> in the right-shift branch,
  \<open>[p0 - (P, 0), p1]\<close> then \<open>[p0, p1 + (P, 0)]\<close> in the left-shift branch, each sum
  rounded. The second is the first moved by \<open>(-P, 0)\<close>, respectively \<open>(P, 0)\<close>,
  exactly when shifting \<open>lon0\<close> by one period and back gives \<open>lon0\<close> again.
\<close>

theorem wrapped64_pair:
  assumes "fl64 lat0 = lat0" and "fl64 lat1 = lat1"
    and "dist64 (lon0, lat0) (lon1, lat1) > dist64 (vadd64 (lon0, lat0) (P, 0)) (lon1, lat1)
         \<or> dist64 (lon0, lat0) (lon1, lat1) > dist64 (lon0, lat0) (vadd64 (lon1, lat1) (P, 0))"
  shows "\<exists>s1 s2. wrap_line64 P ((lon0, lat0), (lon1, lat1)) = [s1, s2]
           \<and> snd (fst s1) = lat0 \<and> snd (snd s1) = lat1
           \<and> snd (fst s2) = lat0 \<and> snd (snd s2) = lat1
           \<and> (if dist64 (lon0, lat0) (lon1, lat1) > dist64 (vadd64 (lon0, lat0) (P, 0)) (lon1, lat1)
               then s1 = (vadd64 (lon0, lat0) (P, 0), (lon1, lat1))
                  \<and> s2 = ((lon0, lat0), vsub64 (lon1, lat1) (P, 0))
                  \<and> (s2 = translate64 (- P, 0) s1 \<longleftrightarrow> fl64 (fl64 (lon0 + P) - P) = lon0)
               else s1 = (vsub64 (lon0, lat0) (P, 0), (lon1, lat1))
                  \<and> s2 = ((lon0, lat0), vadd64 (lon1, lat1) (P, 0))
                  \<and> (s2 = translate64 (P, 0) s1 \<longleftrightarrow> fl64 (fl64 (lon0 - P) + P) = lon0))"
  using assms
  by (auto simp: wrap_line64_def translate64_def vadd64_def vsub64_def)

theorem wrapped64_pair_witness:
  "fl64 0 = 0
   \<and> dist64 (0, 0) (359, 0) > dist64 (vadd64 (0, 0) (360, 0)) (359, 0)
   \<and> (\<exists>s1 s2. wrap_line64 360 ((0, 0), (359, 0)) = [s1, s2]
         \<and> s1 = (vadd64 (0, 0) (360, 0), (359, 0))
         \<and> s2 = ((0, 0), vsub64 (359, 0) (360, 0))
         \<and> s2 = translate64 (- 360, 0) s1)"
proof -
  have z: "fl64 0 = 0" by simp
  have d: "dist64 (0, 0) (359, 0) > dist64 (vadd64 (0, 0) (360, 0)) (359, 0)"
    unfolding dist64_plain_origin dist64_right_origin by simp
  have rt: "fl64 (fl64 (0 + 360) - 360) = 0" by simp
  from wrapped64_pair [OF z z disjI1 [OF d]] d rt z show ?thesis
    by (simp only: if_True) blast
qed

end
